theory Spec2Isabelle
  imports Main
begin

section \<open>JavaScript values, thrown errors and React elements\<close>

text \<open>
  The TypeScript of the repository computes with values typed \<open>any\<close>, with strings and
  with React elements. A value of type \<open>any\<close> is a \<open>js_value\<close>; numbers are the integers
  (no code modelled here does arithmetic on them). An object is the list of its own
  properties in insertion order, each key once.
\<close>

datatype js_value =
    JUndefined
  | JNull
  | JBool bool
  | JNum int
  | JStr string
  | JArr "js_value list"
  | JObj "(string \<times> js_value) list"

text \<open>
  What a \<open>throw\<close> or a rejected promise carries. \<open>Rejected\<close> is the failure of a call to a
  service outside the repository (the database, the key-value store, the network).
\<close>

datatype error =
    TypeError string
  | SyntaxError string
  | ReferenceError string
  | Error string
  | Rejected string

text \<open>JavaScript's ToBoolean, which \<open>if (x)\<close> and \<open>!x\<close> apply to \<open>x\<close>.\<close>

fun truthy :: "js_value \<Rightarrow> bool" where
  "truthy JUndefined = False"
| "truthy JNull = False"
| "truthy (JBool b) = b"
| "truthy (JNum n) = (n \<noteq> 0)"
| "truthy (JStr s) = (s \<noteq> [])"
| "truthy (JArr xs) = True"
| "truthy (JObj kvs) = True"

text \<open>
  Reading the property \<open>k\<close> of a value, as \<open>v.k\<close> and the destructuring
  \<open>const { k } = v\<close> do: \<open>undefined\<close> and \<open>null\<close> have no properties and the read throws
  a TypeError; an object gives the property or \<open>undefined\<close>; the other values have no
  own property of the names read here.
\<close>

fun get_property :: "js_value \<Rightarrow> string \<Rightarrow> error + js_value" where
  "get_property JUndefined k = Inl (TypeError ''Cannot read properties of undefined'')"
| "get_property JNull k = Inl (TypeError ''Cannot read properties of null'')"
| "get_property (JObj kvs) k = Inr (case map_of kvs k of Some v \<Rightarrow> v | None \<Rightarrow> JUndefined)"
| "get_property v k = Inr JUndefined"

text \<open>
  A React element as JSX builds it: a text child, or an element with its type (an
  intrinsic tag such as \<open>div\<close>, or a component referred to by name), its props and its
  children. A component element is not expanded when it is created: the element holds
  the reference to the component, and React calls it later.
\<close>

datatype handler = TrackClick string

datatype prop_value = PStr string | PHandler handler

datatype elem_type = Intrinsic string | Component string

datatype element =
    Text string
  | Element elem_type "(string \<times> prop_value) list" "element list"


section \<open>Dynamic component selection (the article in apps/stories/Button.jsx)\<close>

subsection \<open>The database and the query builder\<close>

text \<open>
  The schema of the article: \<open>type ButtonClick { required property version -> str;
  required property timestamp -> datetime; }\<close>. A database state is the list of the
  stored \<open>ButtonClick\<close> objects; a datetime is a number of seconds.
\<close>

record ButtonClick =
  version :: string
  timestamp :: nat

type_synonym database = "ButtonClick list"

text \<open>
  The query that \<open>getBestPerformingButton\<close> writes with the query builder \<open>e\<close>, as the
  source writes it: \<open>e.ButtonClick.filter(click => e.op(click.version, '=', s))\<close> is
  \<open>FilterVersion ''='' s\<close>, \<open>e.count(...)\<close> of it is \<open>Count\<close>, a string is \<open>Lit\<close>, and \<open>e.op\<close>
  with three and with four arguments is \<open>Op2\<close> and \<open>Op3\<close>, the operator kept as the
  string the source passes.
\<close>

datatype object_set = FilterVersion string string

datatype expr =
    Lit string
  | Count object_set
  | Op2 expr string expr
  | Op3 expr string expr expr

datatype edgeql_value = VStr string | VInt nat | VBool bool

text \<open>
  The builder \<open>e\<close> is generated by the edgeql-js library and the client is the
  database's; neither is code of the repository. A \<open>library\<close> stands for the two: for
  a query as written and a database state it gives what evaluating
  \<open>e.select(query).run(client)\<close> gives, the result or the error thrown on the way.
\<close>

type_synonym library = "expr \<Rightarrow> database \<Rightarrow> error + edgeql_value"

text \<open>
  The builder that edgeql-js generates gives the expression of an object type, such
  as \<open>e.ButtonClick\<close>, no member \<open>filter\<close>: a filter belongs to the shape passed to
  \<open>e.select\<close>. (Nor does its \<open>e.op\<close> know an operator \<open>?\<close>.) The call
  \<open>e.ButtonClick.filter(...)\<close> is the first thing evaluated in a query that contains
  it, and it throws a TypeError: the query is never built, and nothing is sent to the
  database. \<open>generated_builder\<close> is a library with this builder; for a query that does
  not call \<open>filter\<close> it leaves the answer to \<open>lib\<close>.
\<close>

fun calls_filter :: "expr \<Rightarrow> bool" where
  "calls_filter (Lit s) = False"
| "calls_filter (Count (FilterVersion opr s)) = True"
| "calls_filter (Op2 a opr b) = (calls_filter a \<or> calls_filter b)"
| "calls_filter (Op3 c opr a b) = (calls_filter c \<or> calls_filter a \<or> calls_filter b)"

definition generated_builder :: "library \<Rightarrow> library" where
  "generated_builder lib query db =
     (if calls_filter query then Inl (TypeError ''e.ButtonClick.filter is not a function'')
      else lib query db)"

subsection \<open>getBestPerformingButton, CTAButton and DynamicCTA\<close>

text \<open>
  \<open>getBestPerformingButton\<close> evaluates one query and returns its result, cast to
  \<open>ButtonVersion\<close>; the cast checks nothing at run time, so the result is the value
  the query gave. React's \<open>cache\<close> around it only saves the result of the call.
\<close>

definition best_button_query :: expr where
  "best_button_query =
     Op3 (Op2 (Count (FilterVersion ''='' ''A'')) ''>'' (Count (FilterVersion ''='' ''B'')))
         ''?'' (Lit ''A'') (Lit ''B'')"

definition getBestPerformingButton :: "library \<Rightarrow> database \<Rightarrow> error + edgeql_value" where
  "getBestPerformingButton select_run db = select_run best_button_query db"

text \<open>
  \<open>CTAButton\<close> renders a button whose click handler tracks its version, labelled with
  the version. \<open>DynamicCTA\<close> awaits \<open>getBestPerformingButton\<close>, so an error there leaves
  \<open>DynamicCTA\<close> too; with a result it returns a \<open>div\<close> that holds the element
  \<open><CTAButton version="A" />\<close> when the result is the string \<open>A\<close>, and
  \<open><CTAButton version="B" />\<close> otherwise. The element refers to the component and
  carries the version as its prop.
\<close>

definition CTAButton :: "string \<Rightarrow> element" where
  "CTAButton v =
     Element (Intrinsic ''button'')
       [(''onClick'', PHandler (TrackClick v)),
        (''aria-label'', PStr (''Buy now - Version '' @ v))]
       [Text ''Buy Now (Version '', Text v, Text '')'']"

definition DynamicCTA :: "library \<Rightarrow> database \<Rightarrow> error + element" where
  "DynamicCTA select_run db =
     (case getBestPerformingButton select_run db of
        Inl err \<Rightarrow> Inl err
      | Inr bestButton \<Rightarrow>
          Inr (Element (Intrinsic ''div'') []
                 [if bestButton = VStr ''A''
                  then Element (Component ''CTAButton'') [(''version'', PStr ''A'')] []
                  else Element (Component ''CTAButton'') [(''version'', PStr ''B'')] []]))"

subsection \<open>The trackClick route\<close>

text \<open>
  The request gives the outcome of \<open>request.json()\<close>: the parsed body, or the error the
  promise rejects with. \<open>NextResponse.json(body, { status })\<close> is a response record.
\<close>

record request =
  json :: "error + js_value"

record NextResponse =
  body :: js_value
  status :: nat

text \<open>
  What a call of \<open>POST\<close> leaves: the response it returns or the error it throws to its
  caller, the database client's state, and the lines written with \<open>console.error\<close>.
\<close>

record 'db post_result =
  returned :: "error + NextResponse"
  client :: 'db
  console :: "string list"

text \<open>
  \<open>POST\<close> reads the version from the request body before the \<open>try\<close> block, so an error
  there leaves the handler. Inside the \<open>try\<close> it awaits the insert of a \<open>ButtonClick\<close>
  with that version: \<open>run_insert\<close> is the database's answer, the new state or the error
  it rejects with. The \<open>catch\<close> logs and answers 500.
\<close>

definition POST :: "(js_value \<Rightarrow> 'db \<Rightarrow> error + 'db) \<Rightarrow> request \<Rightarrow> 'db \<Rightarrow> 'db post_result" where
  "POST run_insert req db =
     (case json req of
        Inl err \<Rightarrow> \<lparr>returned = Inl err, client = db, console = []\<rparr>
      | Inr parsed \<Rightarrow>
          (case get_property parsed ''version'' of
             Inl err \<Rightarrow> \<lparr>returned = Inl err, client = db, console = []\<rparr>
           | Inr v \<Rightarrow>
               (case run_insert v db of
                  Inr db' \<Rightarrow>
                    \<lparr>returned = Inr \<lparr>body = JObj [(''message'', JStr ''Click tracked'')], status = 200\<rparr>,
                     client = db', console = []\<rparr>
                | Inl err \<Rightarrow>
                    \<lparr>returned = Inr \<lparr>body = JObj [(''message'', JStr ''Error tracking click'')], status = 500\<rparr>,
                     client = db, console = [''Error tracking click:'']\<rparr>)))"

text \<open>
  The version the handler passes to the insert, when it gets that far: \<open>None\<close> when
  reading the body or its \<open>version\<close> threw.
\<close>

definition requested_version :: "request \<Rightarrow> js_value option" where
  "requested_version req =
     (case json req of
        Inl err \<Rightarrow> None
      | Inr parsed \<Rightarrow> (case get_property parsed ''version'' of Inl err \<Rightarrow> None | Inr v \<Rightarrow> Some v))"

text \<open>
  An insert as the schema describes it, for a database whose clock reads \<open>now\<close>: the
  version is a required \<open>str\<close>, so any other value is refused.
\<close>

definition insert_ButtonClick :: "nat \<Rightarrow> js_value \<Rightarrow> database \<Rightarrow> error + database" where
  "insert_ButtonClick now v db =
     (case v of
        JStr s \<Rightarrow> Inr (db @ [\<lparr>version = s, timestamp = now\<rparr>])
      | _ \<Rightarrow> Inl (Rejected ''invalid value for required property version''))"

section \<open>The Storybook configuration (apps/.storybook/main.js)\<close>

text \<open>
  The module imports \<open>join\<close> and \<open>dirname\<close> from Node's \<open>path\<close> and calls
  \<open>require.resolve\<close>. The three belong to the Node installation the configuration is
  evaluated in, so they are parameters here: \<open>require_resolve\<close> gives the file a module
  request resolves to, or the error it throws when nothing is installed under the name.
\<close>

record node_env =
  path_join :: "string \<Rightarrow> string \<Rightarrow> string"
  path_dirname :: "string \<Rightarrow> string"
  require_resolve :: "string \<Rightarrow> error + string"

definition getAbsolutePath :: "node_env \<Rightarrow> string \<Rightarrow> error + string" where
  "getAbsolutePath node v =
     (case require_resolve node (path_join node v ''package.json'') of
        Inl err \<Rightarrow> Inl err
      | Inr file \<Rightarrow> Inr (path_dirname node file))"

text \<open>
  The elements of an array literal are evaluated from left to right, and the first
  one that throws ends the evaluation.
\<close>

fun evaluate_all :: "(error + 'a) list \<Rightarrow> error + 'a list" where
  "evaluate_all [] = Inr []"
| "evaluate_all (Inl err # xs) = Inl err"
| "evaluate_all (Inr x # xs) =
     (case evaluate_all xs of Inl err \<Rightarrow> Inl err | Inr ys \<Rightarrow> Inr (x # ys))"

text \<open>
  The configuration object. Its \<open>webpackFinal\<close> member is a function that Storybook
  calls later with the webpack configuration; it takes no part in building the
  object and is left out.
\<close>

record framework_config =
  framework_name :: string
  framework_options :: "(string \<times> js_value) list"

record docs_config =
  autodocs :: string

record StorybookConfig =
  stories :: "string list"
  addons :: "string list"
  framework :: framework_config
  docs :: docs_config

definition config :: "node_env \<Rightarrow> error + StorybookConfig" where
  "config node =
     (case evaluate_all
             [getAbsolutePath node ''@storybook/addon-onboarding'',
              getAbsolutePath node ''@storybook/addon-links'',
              getAbsolutePath node ''@storybook/addon-essentials'',
              getAbsolutePath node ''@chromatic-com/storybook'',
              getAbsolutePath node ''@storybook/addon-interactions''] of
        Inl err \<Rightarrow> Inl err
      | Inr resolved \<Rightarrow>
          Inr \<lparr>stories =
                 [''../stories/**/*.mdx'',
                  ''../stories/**/*.stories.@(js|jsx|mjs|ts|tsx)'',
                  ''../../packages/ui/src/components/**/*.stories.@(js|jsx|mjs|ts|tsx)''],
               addons = resolved,
               framework = \<lparr>framework_name = ''@storybook/nextjs'', framework_options = []\<rparr>,
               docs = \<lparr>autodocs = ''tag''\<rparr>\<rparr>)"

text \<open>The five package names the configuration passes to \<open>getAbsolutePath\<close>, in its order.\<close>

definition addon_names :: "string list" where
  "addon_names =
     [''@storybook/addon-onboarding'', ''@storybook/addon-links'', ''@storybook/addon-essentials'',
      ''@chromatic-com/storybook'', ''@storybook/addon-interactions'']"

text \<open>
  A Node installation for the examples: packages live under \<open>/repo/node_modules\<close>, and
  every request resolves.
\<close>

definition example_node :: node_env where
  "example_node =
     \<lparr>path_join = (\<lambda>a b. a @ ''/'' @ b),
      path_dirname = (\<lambda>file. take (length file - length ''/package.json'') file),
      require_resolve = (\<lambda>request. Inr (''/repo/node_modules/'' @ request))\<rparr>"


section \<open>The page components of the docs application\<close>

text \<open>
  A page component is a function that returns the element its JSX describes. The
  JSX names components by identifiers of the module: evaluating it looks each one up,
  and an identifier that nothing in the module binds throws a ReferenceError. The
  scope of a page is the list of the names its \<open>import\<close> lines bind.
\<close>

fun components :: "element \<Rightarrow> string list" where
  "components (Text s) = []"
| "components (Element (Intrinsic tag) props children) = concat (map components children)"
| "components (Element (Component c) props children) = c # concat (map components children)"

definition jsx :: "string list \<Rightarrow> element \<Rightarrow> error + element" where
  "jsx scope e =
     (case find (\<lambda>c. c \<notin> set scope) (components e) of
        Some c \<Rightarrow> Inl (ReferenceError c)
      | None \<Rightarrow> Inr e)"

text \<open>
  \<open>Page\<close> of apps/docs/app/page.tsx. The function declares no parameter; \<open>props\<close> stands
  for whatever a caller passes, which the body never reads.
\<close>

definition page_imports :: "string list" where
  "page_imports =
     [''Button'', ''Input'', ''Label'', ''ToastDemo'', ''NeonGradientCard'', ''RainbowButton'',
      ''RetroGridDemo'']"

definition page_element :: element where
  "page_element =
     Element (Intrinsic ''main'') [(''className'', PStr ''flex min-h-screen flex-col  p-24'')]
       [Element (Intrinsic ''div'') [(''className'', PStr ''flex flex-col gap-y-2'')]
          [Element (Intrinsic ''h1'') [(''className'', PStr ''text-4xl font-bold'')] [Text ''Docs''],
           Element (Intrinsic ''div'') [(''className'', PStr ''flex flex-col m-9'')]
             [Element (Component ''RainbowButton'') [] [Text ''Get Unlimited Access'']],
           Element (Component ''Button'') [] [Text ''Click me''],
           Element (Component ''Label'') [] [Text ''Email''],
           Element (Component ''Input'') [(''type'', PStr ''email''), (''placeholder'', PStr ''Email'')] [],
           Element (Component ''Button'') [] [Text ''Submit''],
           Element (Component ''ToastDemo'') [] [],
           Element (Component ''NeonGradientCard'')
             [(''className'', PStr ''max-w-sm items-center justify-center text-center'')]
             [Element (Intrinsic ''span'')
                [(''className'', PStr ''pointer-events-none z-10 h-full whitespace-pre-wrap bg-gradient-to-br from-[#ff2975] from-35% to-[#00FFF1] bg-clip-text text-center text-6xl font-bold leading-none tracking-tighter text-transparent dark:drop-shadow-[0_5px_5px_rgba(0,0,0,0.8)]'')]
                [Text ''Neon Gradient Card'']],
           Element (Component ''RetroGridDemo'') [] []]]"

definition Page :: "'props \<Rightarrow> error + element" where
  "Page props = jsx page_imports page_element"

text \<open>\<open>Page\<close> of the second docs page (src/unnamed/part_001), which shows the charts.\<close>

definition charts_page_imports :: "string list" where
  "charts_page_imports = [''Charts'']"

definition charts_page_element :: element where
  "charts_page_element =
     Element (Intrinsic ''main'')
       [(''className'', PStr ''flex min-h-screen flex-col items-center justify-between p-24'')]
       [Element (Intrinsic ''div'') [(''className'', PStr ''flex flex-col gap-y-2'')]
          [Element (Intrinsic ''h1'') [(''className'', PStr ''text-4xl font-bold'')] [Text ''Docs''],
           Element (Component ''Charts'') [] []]]"

definition Page_charts :: "'props \<Rightarrow> error + element" where
  "Page_charts props = jsx charts_page_imports charts_page_element"

section \<open>The content documents\<close>

text \<open>
  The articles of the repository are Markdown and MDX files. Some source files hold
  several documents one after another, divided by a marker line; each document is
  taken on its own. A document is the list of its lines. What is asked of a document
  below is decided by how it opens, so each constant holds the opening lines of its
  document, as they stand in the file (bytes of UTF-8 outside ASCII written as
  \<open>CHR\<close>): everything up to the second line with text after the front-matter block,
  or after the start of the document when it has no such block.
\<close>

type_synonym document = "string list"

text \<open>The first 5 of the 246 lines of the article that follows the stories in apps/stories/Button.jsx.\<close>

definition doc_button_article :: document where
  "doc_button_article =
     [[],
      [],
      ''# Optimizing React Components with Dynamic Selection Based on User Interaction in Next.js 13+'',
      [],
      ''Optimizing user experience is important for'' @ [CHR 0xC2, CHR 0xA0] @ ''engaging'' @ [CHR 0xC2, CHR 0xA0] @ ''users, improving'' @ [CHR 0xC2, CHR 0xA0] @ ''conversions, and driving'' @ [CHR 0xC2, CHR 0xA0] @ ''business growth. For'' @ [CHR 0xC2, CHR 0xA0] @ ''developers'' @ [CHR 0xC2, CHR 0xA0] @ ''working'' @ [CHR 0xC2, CHR 0xA0] @ ''with React'' @ [CHR 0xC2, CHR 0xA0] @ ''and Next.js, implementing'' @ [CHR 0xC2, CHR 0xA0] @ ''systems'' @ [CHR 0xC2, CHR 0xA0] @ ''that dynamically adjust'' @ [CHR 0xC2, CHR 0xA0] @ ''components based on real-time user data'' @ [CHR 0xC2, CHR 0xA0] @ ''is'' @ [CHR 0xC2, CHR 0xA0] @ ''a powerful strategy'' @ [CHR 0xC2, CHR 0xA0] @ ''to'' @ [CHR 0xC2, CHR 0xA0] @ ''achieve optimization.'']"

text \<open>The first 12 of the 332 lines of apps/portfolio/content/Design-Systems-Turborepo-and-Git-Submodules.mdx.\<close>

definition doc_design_systems :: document where
  "doc_design_systems =
     [''---'',
      ''title: \"Design Systems, Turborepo, and Git Submodules: Strategies for Managing Shared Resources in Modern Web Development\"'',
      ''publishedAt: \"2024-06-18\"'',
      ''summary: \"Managing a design system that serves various projects while being maintained separately from application development teams can be challenging.\"'',
      ''published: true'',
      ''---'',
      [],
      ''**Design Systems, Turborepo, and Git Submodules: Strategies for Managing Shared Resources in Modern Web Development**'',
      [],
      ''  '',
      [],
      ''In modern web development, managing shared resources across multiple projects and teams is a complex challenge. As companies scale, the need for consistent user experiences across their entire product suite becomes essential. This is where **design systems** come into play'' @ [CHR 0xE2, CHR 0x80, CHR 0x94] @ ''a unified set of UI components, design tokens, and guidelines that ensure a cohesive design and user experience across various platforms.'']"

text \<open>The first 4 of the 276 lines of apps/portfolio/content/Final - Exploring Predictive Maintenance and AI in Construction and Engineering with EdgeDB.md.\<close>

definition doc_final :: document where
  "doc_final =
     [[],
      ''**Exploring Predictive Maintenance and AI in Construction and Engineering with EdgeDB: A Guide**'',
      ''  '',
      ''**Introduction**'']"

text \<open>The first 3 of the 99 lines of apps/portfolio/content/Unlocking the Power of EdgeDB's Native AI - Transforming Legal, Construction, and Architecture Industries.md, its first document.\<close>

definition doc_unlocking :: document where
  "doc_unlocking =
     [''**Unlocking the Power of EdgeDB'' @ [CHR 0xE2, CHR 0x80, CHR 0x99] @ ''s Native AI: Transforming Legal, Construction, and Architecture Industries**'',
      [],
      ''In today'' @ [CHR 0xE2, CHR 0x80, CHR 0x99] @ ''s fast-paced world, where data drives decisions, integrating AI into your workflow isn'' @ [CHR 0xE2, CHR 0x80, CHR 0x99] @ ''t just an option'' @ [CHR 0xE2, CHR 0x80, CHR 0x94] @ ''it'' @ [CHR 0xE2, CHR 0x80, CHR 0x99] @ ''s a necessity. EdgeDB is leading the way by embedding AI capabilities directly into its core, offering powerful tools that are as easy to use as they are effective. This article will explore how these native AI features can revolutionize the way professionals in law, construction, and architecture approach their work.'']"

text \<open>The first 3 of the 103 lines of the second document of the same file.\<close>

definition doc_unlocking_2 :: document where
  "doc_unlocking_2 =
     [''Let'' @ [CHR 0xE2, CHR 0x80, CHR 0x99] @ ''s review and critique the proposed architecture, including the addition of Cloudflare KV (Key-Value) storage for caching, to further optimize the performance and efficiency of the system.'',
      [],
      ''### **1. Architecture Overview (With KV Cache)**'']"

text \<open>The first 10 of the 338 lines of src/unnamed/part_000, its first document.\<close>

definition doc_part_000 :: document where
  "doc_part_000 =
     [''---'',
      ''title: \"Building a Natural Language Query Interface with EdgeDB, Cloudflare Pages, and AstroJS\"'',
      ''publishedAt: \"2024-06-18\"'',
      ''summary: \"What if you could simply ask your database a question in plain English, and it understood you?\"'',
      ''published: true'',
      ''---'',
      [],
      ''# Building a Natural Language Query Interface with EdgeDB, Cloudflare Pages, and AstroJS'',
      [],
      ''## Introduction'']"

text \<open>The first 10 of the 191 lines of src/unnamed/part_000, its third document (the second is the root layout of the docs application).\<close>

definition doc_part_000_3 :: document where
  "doc_part_000_3 =
     [''---'',
      ''title: \"An improved approach to managing your data using EdgeDB for core operations, D2 (Durable Object) for persistent storage, and Cloudflare KV for caching\"'',
      ''publishedAt: \"2024-06-18\"'',
      ''summary: \"Managing a design system that serves various projects while being maintained separately from application development teams can be challenging.\"'',
      ''published: true'',
      ''---  '',
      [],
      ''This guide outlines an improved approach to managing your data using EdgeDB for core operations, D2 (Durable Object) for persistent storage, and Cloudflare KV for caching in your Hono app deployed on Cloudflare Workers. The enhancements focus on automating cache invalidation, optimizing sync processes, and managing costs effectively.'',
      [],
      ''### **1. Architectural Overview**'']"

text \<open>The first 3 of the 235 lines of src/unnamed/part_002.\<close>

definition doc_part_002 :: document where
  "doc_part_002 =
     [''Building a fast, responsive autocomplete feature is crucial for delivering an excellent user experience in modern web applications. When working with large datasets, the challenge is to ensure that your system can handle high-frequency queries with minimal latency while maintaining data consistency. In this article, we'' @ [CHR 0xE2, CHR 0x80, CHR 0x99] @ ''ll explore an optimized architecture that combines EdgeDB, Cloudflare D2 (Durable Objects), KV (Key-Value) caching, Hono for request handling, and Workers AI for NLP (Natural Language Processing) to SQL conversion. This setup will help you build a robust autocomplete feature for your Astro-based frontend.'',
      [],
      ''### **1. Architecture Overview**'']"

text \<open>The first 10 of the 194 lines of src/unnamed/part_003.\<close>

definition doc_part_003 :: document where
  "doc_part_003 =
     [''---'',
      ''title: \"Choosing the Right Strategy for Managing a Design System: Git Submodules, Subtrees, Monorepos, and Package Management\"'',
      ''publishedAt: \"2024-06-18\"'',
      ''summary: \"Managing a design system that serves various projects while being maintained separately from application development teams can be challenging.\"'',
      ''published: true'',
      ''---'',
      [],
      ''# Choosing the Right Strategy for Managing a Design System: Git Submodules, Subtrees, Monorepos, and Package Management'',
      [],
      ''A robust design system is essential for ensuring consistency and efficiency across multiple applications. However, managing a design system that serves various projects while being maintained separately from application development teams can be challenging. The choice of strategy for this setup can significantly impact team productivity, collaboration, and the overall quality of the design system. This article explores various approaches'' @ [CHR 0xE2, CHR 0x80, CHR 0x94] @ ''Git submodules, Git subtree, monorepos, and package management'' @ [CHR 0xE2, CHR 0x80, CHR 0x94] @ ''to help you determine the best fit for your organization.'']"

text \<open>The first 8 of the 95 lines of src/unnamed/part_004.\<close>

definition doc_part_004 :: document where
  "doc_part_004 =
     [''---'',
      ''title: \"Safely Fork a Git Remote Instead of Clone\"'',
      ''publishedAt: \"2024-06-18\"'',
      ''summary: \"A guide to safely fork a Git remote instead of cloning to ensure you can keep your fork updated with the original repository.\"'',
      ''---'',
      [],
      ''**Steps for Setting Up Your Fork:**'',
      ''1. **Fork the Original Repository on GitHub**:'']"

definition content_documents :: "document list" where
  "content_documents =
     [doc_button_article,
      doc_design_systems,
      doc_final,
      doc_unlocking,
      doc_unlocking_2,
      doc_part_000,
      doc_part_000_3,
      doc_part_002,
      doc_part_003,
      doc_part_004]"

subsection \<open>Front matter, title and body\<close>

text \<open>
  The format the specification gives for a content file: the document begins with a
  front-matter block, a line \<open>---\<close>, lines of the form \<open>key: value\<close> and a closing line
  \<open>---\<close>; the block holds \<open>title\<close>, \<open>publishedAt\<close>, \<open>summary\<close> and \<open>published\<close>, the last
  one a boolean. Blanks at the end of a delimiter line do not count.
\<close>

fun starts_with :: "string \<Rightarrow> string \<Rightarrow> bool" where
  "starts_with [] s = True"
| "starts_with (c # cs) [] = False"
| "starts_with (c # cs) (d # ds) = (c = d \<and> starts_with cs ds)"

definition is_space :: "char \<Rightarrow> bool" where
  "is_space c = (c = CHR '' '' \<or> c = CHR 0x09)"

definition blank :: "string \<Rightarrow> bool" where
  "blank l = list_all is_space l"

definition strip :: "string \<Rightarrow> string" where
  "strip s = rev (dropWhile is_space (rev (dropWhile is_space s)))"

definition is_delimiter :: "string \<Rightarrow> bool" where
  "is_delimiter l = (rev (dropWhile is_space (rev l)) = ''---'')"

text \<open>
  The lines between the opening and the closing delimiter, when the document begins
  with a block; and the lines after the block (all of them when there is none).
\<close>

definition front_matter :: "document \<Rightarrow> string list option" where
  "front_matter doc =
     (case doc of
        [] \<Rightarrow> None
      | l # ls \<Rightarrow>
          if is_delimiter l \<and> list_ex is_delimiter ls
          then Some (takeWhile (\<lambda>x. \<not> is_delimiter x) ls)
          else None)"

definition after_front_matter :: "document \<Rightarrow> string list" where
  "after_front_matter doc =
     (case front_matter doc of None \<Rightarrow> doc | Some block \<Rightarrow> drop (length block + 2) doc)"

text \<open>The value of the first line \<open>key: value\<close> of a block, blanks around it removed.\<close>

definition field :: "string \<Rightarrow> string list \<Rightarrow> string option" where
  "field k block =
     (case find (starts_with (k @ '':'')) block of
        None \<Rightarrow> None
      | Some l \<Rightarrow> Some (strip (drop (length k + 1) l)))"

definition is_boolean :: "string \<Rightarrow> bool" where
  "is_boolean v = (v = ''true'' \<or> v = ''false'')"

text \<open>The keys of the four fields that a block holds, in the order asked for.\<close>

definition fields_present :: "document \<Rightarrow> string list" where
  "fields_present doc =
     (case front_matter doc of
        None \<Rightarrow> []
      | Some block \<Rightarrow>
          filter (\<lambda>k. field k block \<noteq> None) [''title'', ''publishedAt'', ''summary'', ''published''])"

definition complete_front_matter :: "document \<Rightarrow> bool" where
  "complete_front_matter doc =
     (case front_matter doc of
        None \<Rightarrow> False
      | Some block \<Rightarrow>
          field ''title'' block \<noteq> None \<and> field ''publishedAt'' block \<noteq> None
          \<and> field ''summary'' block \<noteq> None
          \<and> (case field ''published'' block of None \<Rightarrow> False | Some v \<Rightarrow> is_boolean v))"

text \<open>
  The title of a post is the \<open>title\<close> of its front matter. A document without one may
  still open with a line that reads as a title: a Markdown heading, or a line set in
  bold from end to end. The body is what follows the title.
\<close>

definition front_matter_title :: "document \<Rightarrow> string option" where
  "front_matter_title doc =
     (case front_matter doc of None \<Rightarrow> None | Some block \<Rightarrow> field ''title'' block)"

definition is_heading :: "string \<Rightarrow> bool" where
  "is_heading l =
     (starts_with ''#'' l \<or> (4 < length (strip l) \<and> starts_with ''**'' l \<and> starts_with ''**'' (rev (strip l))))"

definition opening_heading :: "document \<Rightarrow> string option" where
  "opening_heading doc =
     (case dropWhile blank (after_front_matter doc) of
        [] \<Rightarrow> None
      | l # ls \<Rightarrow> if is_heading l then Some l else None)"

definition has_title :: "document \<Rightarrow> bool" where
  "has_title doc =
     (case front_matter_title doc of
        Some t \<Rightarrow> t \<noteq> []
      | None \<Rightarrow> opening_heading doc \<noteq> None)"

definition body_lines :: "document \<Rightarrow> string list" where
  "body_lines doc =
     (case front_matter_title doc of
        Some t \<Rightarrow> after_front_matter doc
      | None \<Rightarrow>
          (case opening_heading doc of
             Some l \<Rightarrow> tl (dropWhile blank (after_front_matter doc))
           | None \<Rightarrow> after_front_matter doc))"

definition has_body :: "document \<Rightarrow> bool" where
  "has_body doc = list_ex (\<lambda>l. \<not> blank l) (body_lines doc)"

text \<open>The two ways a document can have its title.\<close>

definition titled_by_front_matter :: "document \<Rightarrow> bool" where
  "titled_by_front_matter doc =
     (case front_matter_title doc of Some t \<Rightarrow> t \<noteq> [] | None \<Rightarrow> False)"

definition titled_by_heading :: "document \<Rightarrow> bool" where
  "titled_by_heading doc = (front_matter_title doc = None \<and> opening_heading doc \<noteq> None)"

section \<open>The autocomplete request handler (the article in src/unnamed/part_002)\<close>

subsection \<open>The services the handler talks to\<close>

text \<open>
  The key-value store: \<open>get\<close> gives the string stored under a key or \<open>null\<close>, and
  \<open>put(key, text, { expirationTtl })\<close> stores a text with the time it may live, in
  seconds. The store keeps a string as it is; handed \<open>undefined\<close>, which is what
  \<open>JSON.stringify(undefined)\<close> gives, it keeps the text \<open>undefined\<close>. An entry is read
  back as it was written; entries do not expire within the calls looked at here.
\<close>

record kv_entry =
  kv_text :: string
  expirationTtl :: "nat option"

type_synonym kv_namespace = "string \<rightharpoonup> kv_entry"

definition kv_get :: "kv_namespace \<Rightarrow> string \<Rightarrow> string option" where
  "kv_get kv k = map_option kv_text (kv k)"

definition kv_text_of :: "string option \<Rightarrow> string" where
  "kv_text_of v = (case v of Some s \<Rightarrow> s | None \<Rightarrow> ''undefined'')"

definition kv_put :: "kv_namespace \<Rightarrow> string \<Rightarrow> string option \<Rightarrow> nat \<Rightarrow> kv_namespace" where
  "kv_put kv k v ttl = kv(k \<mapsto> \<lparr>kv_text = kv_text_of v, expirationTtl = Some ttl\<rparr>)"

text \<open>
  The storage of a durable object: \<open>get\<close> gives the value stored under a key or
  \<open>undefined\<close>, \<open>put\<close> stores a value.
\<close>

type_synonym durable_storage = "string \<rightharpoonup> js_value"

definition d2_get :: "durable_storage \<Rightarrow> string \<Rightarrow> js_value" where
  "d2_get st k = (case st k of None \<Rightarrow> JUndefined | Some v \<Rightarrow> v)"

text \<open>
  The bindings in \<open>env\<close>: the key-value namespace, the durable objects by name, and
  the namespace whose objects answer SQL queries. What a query answers is the
  database's affair: \<open>D2_NAMESPACE\<close> gives, for an object name and a query, the rows or
  the error the call rejects with.
\<close>

record env =
  KV_NAMESPACE :: kv_namespace
  DURABLE_OBJECT :: "string \<Rightarrow> durable_storage"
  D2_NAMESPACE :: "string \<Rightarrow> js_value \<Rightarrow> error + js_value"

text \<open>
  What the JavaScript host provides: \<open>fetch\<close> (the address and the body sent give a
  response, or the error of a failed connection), and \<open>JSON.parse\<close> and
  \<open>JSON.stringify\<close>. \<open>JSON.stringify\<close> gives no string for \<open>undefined\<close>; that is \<open>None\<close>.
\<close>

record response =
  ok :: bool
  statusText :: string
  response_json :: "error + js_value"

record host =
  fetch :: "string \<Rightarrow> string option \<Rightarrow> error + response"
  JSON_parse :: "string \<Rightarrow> error + js_value"
  JSON_stringify :: "js_value \<Rightarrow> string option"

subsection \<open>The functions of the article\<close>

definition performNLPToSQLConversion :: "host \<Rightarrow> string \<Rightarrow> error + js_value" where
  "performNLPToSQLConversion h userQuery =
     (case fetch h ''https://<workers-ai-endpoint>/convert''
             (JSON_stringify h (JObj [(''query'', JStr userQuery)])) of
        Inl err \<Rightarrow> Inl err
      | Inr resp \<Rightarrow>
          if \<not> ok resp then Inl (Error (''Failed to convert query: '' @ statusText resp))
          else (case response_json resp of
                  Inl err \<Rightarrow> Inl err
                | Inr data \<Rightarrow> get_property data ''sqlQuery''))"

definition executeSQLQueryOnD2 :: "js_value \<Rightarrow> (string \<Rightarrow> js_value \<Rightarrow> error + js_value) \<Rightarrow> error + js_value" where
  "executeSQLQueryOnD2 sqlQuery d2Namespace = d2Namespace ''autocomplete-data'' sqlQuery"

text \<open>
  \<open>handleAutocompleteRequest\<close> returns what the call returns, or the error it throws,
  together with \<open>env\<close> as the call leaves it: an error keeps the writes made before it.
  \<open>results_from_d2\<close> is the part from the read of the durable object to the end of the
  \<open>if (!results)\<close> block.
\<close>

definition results_from_d2 :: "host \<Rightarrow> string \<Rightarrow> env \<Rightarrow> (error + js_value) \<times> env" where
  "results_from_d2 h query e =
     (let d2Object = DURABLE_OBJECT e ''autocomplete-data'';
          results = d2_get d2Object query
      in if \<not> truthy results then
           (case performNLPToSQLConversion h query of
              Inl err \<Rightarrow> (Inl err, e)
            | Inr sqlQuery \<Rightarrow>
                (case executeSQLQueryOnD2 sqlQuery (D2_NAMESPACE e) of
                   Inl err \<Rightarrow> (Inl err, e)
                 | Inr results' \<Rightarrow>
                     (Inr results',
                      e\<lparr>DURABLE_OBJECT :=
                          (DURABLE_OBJECT e)(''autocomplete-data'' := d2Object(query \<mapsto> results'))\<rparr>)))
         else (Inr results, e))"

definition handleAutocompleteRequest :: "host \<Rightarrow> string \<Rightarrow> env \<Rightarrow> (error + js_value) \<times> env" where
  "handleAutocompleteRequest h query e =
     (case kv_get (KV_NAMESPACE e) query of
        Some (c # cs) \<Rightarrow> (JSON_parse h (c # cs), e)
      | _ \<Rightarrow>
          (case results_from_d2 h query e of
             (Inl err, e') \<Rightarrow> (Inl err, e')
           | (Inr results, e') \<Rightarrow>
               (Inr results,
                e'\<lparr>KV_NAMESPACE := kv_put (KV_NAMESPACE e') query (JSON_stringify h results) 60\<rparr>)))"

text \<open>
  A call is served from the key-value store when the string found under the query is
  truthy, that is, present and not empty.
\<close>

definition served_from_kv :: "env \<Rightarrow> string \<Rightarrow> bool" where
  "served_from_kv e query = (case kv_get (KV_NAMESPACE e) query of Some (c # cs) \<Rightarrow> True | _ \<Rightarrow> False)"

text \<open>Two calls in succession with the same query: the second starts where the first ended.\<close>

definition first_call :: "host \<Rightarrow> string \<Rightarrow> env \<Rightarrow> (error + js_value) \<times> env" where
  "first_call h query e = handleAutocompleteRequest h query e"

definition second_call :: "host \<Rightarrow> string \<Rightarrow> env \<Rightarrow> (error + js_value) \<times> env" where
  "second_call h query e = handleAutocompleteRequest h query (snd (first_call h query e))"

text \<open>
  Hosts and bindings for the examples. The JSON functions of the example hosts agree
  with JSON on every value and text that occurs in the examples: the request
  \<open>{"query":"ann"}\<close>, the rows \<open>["ann"]\<close>, an array that holds \<open>undefined\<close>, which JSON
  writes as \<open>[null]\<close> and reads back as an array that holds \<open>null\<close>, and \<open>undefined\<close>
  itself, for which \<open>JSON.stringify\<close> gives no text and whose name is no JSON text.
\<close>

definition example_stringify :: "js_value \<Rightarrow> string option" where
  "example_stringify v =
     (if v = JObj [(''query'', JStr ''ann'')] then Some ''{\"query\":\"ann\"}''
      else if v = JArr [JStr ''ann''] then Some ''[\"ann\"]''
      else if v = JArr [JUndefined] then Some ''[null]''
      else None)"

definition example_parse :: "string \<Rightarrow> error + js_value" where
  "example_parse s =
     (if s = ''[\"ann\"]'' then Inr (JArr [JStr ''ann''])
      else if s = ''[null]'' then Inr (JArr [JNull])
      else Inl (SyntaxError ''Unexpected token''))"

text \<open>
  The conversion service of \<open>failing_host\<close> answers every request with status 503; that
  of \<open>tiny_host\<close> converts every query to one SQL text.
\<close>

definition failing_host :: host where
  "failing_host =
     \<lparr>fetch = (\<lambda>address sent. Inr \<lparr>ok = False, statusText = ''Service Unavailable'',
                                    response_json = Inl (SyntaxError ''Unexpected end of JSON input'')\<rparr>),
      JSON_parse = example_parse,
      JSON_stringify = example_stringify\<rparr>"

definition tiny_host :: host where
  "tiny_host =
     \<lparr>fetch = (\<lambda>address sent. Inr \<lparr>ok = True, statusText = ''OK'',
                                    response_json = Inr (JObj [(''sqlQuery'', JStr ''SELECT name FROM users'')])\<rparr>),
      JSON_parse = example_parse,
      JSON_stringify = example_stringify\<rparr>"

text \<open>
  Nothing is cached in the three bindings. The SQL engine of \<open>empty_env\<close> answers with
  the rows \<open>["ann"]\<close>, that of \<open>undefined_env\<close> with \<open>undefined\<close>; in \<open>stored_env\<close> the
  durable object holds an array with \<open>undefined\<close> in it under the query \<open>ann\<close>.
\<close>

definition empty_env :: env where
  "empty_env =
     \<lparr>KV_NAMESPACE = Map.empty,
      DURABLE_OBJECT = (\<lambda>object. Map.empty),
      D2_NAMESPACE = (\<lambda>object sqlQuery. Inr (JArr [JStr ''ann'']))\<rparr>"

definition undefined_env :: env where
  "undefined_env =
     \<lparr>KV_NAMESPACE = Map.empty,
      DURABLE_OBJECT = (\<lambda>object. Map.empty),
      D2_NAMESPACE = (\<lambda>object sqlQuery. Inr JUndefined)\<rparr>"

definition stored_env :: env where
  "stored_env =
     \<lparr>KV_NAMESPACE = Map.empty,
      DURABLE_OBJECT = (\<lambda>object. [''ann'' \<mapsto> JArr [JUndefined]]),
      D2_NAMESPACE = (\<lambda>object sqlQuery. Inl (Rejected ''no such table''))\<rparr>"


section \<open>Properties of the dynamic component selection\<close>

text \<open>
  Whatever the library answers, \<open>DynamicCTA\<close> renders the button of the version
  \<open>getBestPerformingButton\<close> returned: version A for the result \<open>A\<close>, version B for any
  other result, and nothing when the call threw.
\<close>

lemma DynamicCTA_renders_returned_version:
  "(getBestPerformingButton lib db = Inr (VStr ''A'') \<longrightarrow>
      DynamicCTA lib db =
        Inr (Element (Intrinsic ''div'') []
               [Element (Component ''CTAButton'') [(''version'', PStr ''A'')] []]))
   \<and> (\<forall>v. getBestPerformingButton lib db = Inr v \<and> v \<noteq> VStr ''A'' \<longrightarrow>
          DynamicCTA lib db =
            Inr (Element (Intrinsic ''div'') []
                   [Element (Component ''CTAButton'') [(''version'', PStr ''B'')] []]))
   \<and> (\<forall>err. getBestPerformingButton lib db = Inl err \<longrightarrow> DynamicCTA lib db = Inl err)"
  by (simp add: DynamicCTA_def)

text \<open>The query of \<open>getBestPerformingButton\<close> calls \<open>e.ButtonClick.filter\<close>.\<close>

lemma best_button_query_calls_filter: "calls_filter best_button_query"
  by (simp add: best_button_query_def)

text \<open>
  Claim C1 says that for every database state \<open>getBestPerformingButton\<close> returns the
  version whose click count is greater and \<open>DynamicCTA\<close> renders its \<open>CTAButton\<close>. With
  the builder that edgeql-js generates the code does neither: for every database
  state, the one with two clicks on A and one on B included, building the query
  throws a TypeError, \<open>getBestPerformingButton\<close> throws it on, and \<open>DynamicCTA\<close> returns
  no element.
\<close>

theorem getBestPerformingButton_throws:
  "getBestPerformingButton (generated_builder lib) db
     = Inl (TypeError ''e.ButtonClick.filter is not a function'')
   \<and> DynamicCTA (generated_builder lib) db
     = Inl (TypeError ''e.ButtonClick.filter is not a function'')
   \<and> getBestPerformingButton (generated_builder lib)
       [\<lparr>version = ''A'', timestamp = 1\<rparr>, \<lparr>version = ''B'', timestamp = 2\<rparr>,
        \<lparr>version = ''A'', timestamp = 3\<rparr>]
     \<noteq> Inr (VStr ''A'')"
  by (simp add: getBestPerformingButton_def DynamicCTA_def generated_builder_def
      best_button_query_calls_filter)

text \<open>
  Claim C3 says that on a tie \<open>getBestPerformingButton\<close> returns B and version B is
  rendered. With the builder that edgeql-js generates the code does not: on the tie
  of one click on each version the call throws the TypeError, as on every state, and
  no button is rendered.
\<close>

theorem tie_throws:
  "getBestPerformingButton (generated_builder lib)
     [\<lparr>version = ''A'', timestamp = 1\<rparr>, \<lparr>version = ''B'', timestamp = 2\<rparr>]
     = Inl (TypeError ''e.ButtonClick.filter is not a function'')
   \<and> DynamicCTA (generated_builder lib)
     [\<lparr>version = ''A'', timestamp = 1\<rparr>, \<lparr>version = ''B'', timestamp = 2\<rparr>]
     = Inl (TypeError ''e.ButtonClick.filter is not a function'')"
  by (simp add: getBestPerformingButton_def DynamicCTA_def generated_builder_def
      best_button_query_calls_filter)

subsection \<open>The trackClick route\<close>

text \<open>
  An error while reading the body or its version is thrown before the \<open>try\<close> block
  and leaves \<open>POST\<close>; no insert is attempted.
\<close>

lemma requested_version_None:
  "requested_version req = None \<Longrightarrow> \<exists>err. returned (POST run_insert req db) = Inl err"
  by (auto simp: requested_version_def POST_def split: sum.splits)

text \<open>The two ways out of the \<open>try\<close> block.\<close>

lemma POST_insert_ok:
  "requested_version req = Some v \<Longrightarrow> run_insert v db = Inr db' \<Longrightarrow>
   POST run_insert req db =
     \<lparr>returned = Inr \<lparr>body = JObj [(''message'', JStr ''Click tracked'')], status = 200\<rparr>,
      client = db', console = []\<rparr>"
  by (auto simp: requested_version_def POST_def split: sum.splits)

lemma POST_insert_fails:
  "requested_version req = Some v \<Longrightarrow> run_insert v db = Inl err \<Longrightarrow>
   POST run_insert req db =
     \<lparr>returned = Inr \<lparr>body = JObj [(''message'', JStr ''Error tracking click'')], status = 500\<rparr>,
      client = db, console = [''Error tracking click:'']\<rparr>"
  by (auto simp: requested_version_def POST_def split: sum.splits)

text \<open>
  Claim C4. \<open>POST\<close> returns status 200 with the message \<open>Click tracked\<close> exactly when
  the insert of the \<open>ButtonClick\<close> succeeds; when the insert throws, \<open>POST\<close> returns
  status 500 with the message \<open>Error tracking click\<close>: it returns a response and
  throws nothing to its caller.
\<close>

theorem POST_200_iff_insert_succeeds:
  "(returned (POST run_insert req db)
      = Inr \<lparr>body = JObj [(''message'', JStr ''Click tracked'')], status = 200\<rparr>
    \<longleftrightarrow> (\<exists>v db'. requested_version req = Some v \<and> run_insert v db = Inr db'))
   \<and> (\<forall>v err. requested_version req = Some v \<and> run_insert v db = Inl err \<longrightarrow>
         returned (POST run_insert req db)
           = Inr \<lparr>body = JObj [(''message'', JStr ''Error tracking click'')], status = 500\<rparr>)"
proof (cases "requested_version req")
  case None
  then show ?thesis using requested_version_None [OF None, of run_insert db] by auto
next
  case (Some v)
  show ?thesis
  proof (cases "run_insert v db")
    case (Inl err)
    from Some Inl POST_insert_fails [where req = req and v = v and run_insert = run_insert and db = db]
    show ?thesis by simp
  next
    case (Inr db')
    from Some Inr POST_insert_ok [where req = req and v = v and run_insert = run_insert and db = db]
    show ?thesis by simp
  qed
qed

text \<open>
  A request for version A, which the database stores, and a request whose version is
  a number, which the database refuses.
\<close>

theorem POST_200_iff_insert_succeeds_witness:
  "returned (POST (insert_ButtonClick 7) \<lparr>json = Inr (JObj [(''version'', JStr ''A'')])\<rparr> [])
     = Inr \<lparr>body = JObj [(''message'', JStr ''Click tracked'')], status = 200\<rparr>
   \<and> returned (POST (insert_ButtonClick 7) \<lparr>json = Inr (JObj [(''version'', JNum 1)])\<rparr> [])
     = Inr \<lparr>body = JObj [(''message'', JStr ''Error tracking click'')], status = 500\<rparr>"
proof -
  have v1: "requested_version \<lparr>json = Inr (JObj [(''version'', JStr ''A'')])\<rparr> = Some (JStr ''A'')"
    by (simp add: requested_version_def)
  have i1: "insert_ButtonClick 7 (JStr ''A'') [] = Inr [\<lparr>version = ''A'', timestamp = 7\<rparr>]"
    by (simp add: insert_ButtonClick_def)
  have v2: "requested_version \<lparr>json = Inr (JObj [(''version'', JNum 1)])\<rparr> = Some (JNum 1)"
    by (simp add: requested_version_def)
  have i2: "insert_ButtonClick 7 (JNum 1) [] = Inl (Rejected ''invalid value for required property version'')"
    by (simp add: insert_ButtonClick_def)
  from POST_200_iff_insert_succeeds
         [of "insert_ButtonClick 7" "\<lparr>json = Inr (JObj [(''version'', JStr ''A'')])\<rparr>" "[]"] v1 i1
  have a: "returned (POST (insert_ButtonClick 7) \<lparr>json = Inr (JObj [(''version'', JStr ''A'')])\<rparr> [])
     = Inr \<lparr>body = JObj [(''message'', JStr ''Click tracked'')], status = 200\<rparr>"
    by blast
  from POST_200_iff_insert_succeeds
         [of "insert_ButtonClick 7" "\<lparr>json = Inr (JObj [(''version'', JNum 1)])\<rparr>" "[]"] v2 i2
  have b: "returned (POST (insert_ButtonClick 7) \<lparr>json = Inr (JObj [(''version'', JNum 1)])\<rparr> [])
     = Inr \<lparr>body = JObj [(''message'', JStr ''Error tracking click'')], status = 500\<rparr>"
    by blast
  from a b show ?thesis by simp
qed


section \<open>Properties of the Storybook configuration\<close>

text \<open>
  When every element of an array literal evaluates, the array holds their values in
  order.
\<close>

lemma evaluate_all_Inr:
  "evaluate_all xs = Inr ys \<Longrightarrow> xs = map Inr ys"
proof (induction xs arbitrary: ys)
  case Nil
  then show ?case by simp
next
  case (Cons x xs)
  then show ?case by (cases x) (auto split: sum.splits)
qed

text \<open>
  A configuration that was built holds the three globs, and its addons are the
  results of \<open>getAbsolutePath\<close> on the five names.
\<close>

lemma config_Inr:
  "config node = Inr c \<Longrightarrow>
     stories c =
       [''../stories/**/*.mdx'',
        ''../stories/**/*.stories.@(js|jsx|mjs|ts|tsx)'',
        ''../../packages/ui/src/components/**/*.stories.@(js|jsx|mjs|ts|tsx)'']
     \<and> map Inr (addons c) = map (getAbsolutePath node) addon_names"
proof -
  assume c: "config node = Inr c"
  then obtain resolved where
    ev: "evaluate_all (map (getAbsolutePath node) addon_names) = Inr resolved"
    and st: "stories c =
       [''../stories/**/*.mdx'',
        ''../stories/**/*.stories.@(js|jsx|mjs|ts|tsx)'',
        ''../../packages/ui/src/components/**/*.stories.@(js|jsx|mjs|ts|tsx)'']"
    and ad: "addons c = resolved"
    by (auto simp: config_def addon_names_def split: sum.splits)
  from evaluate_all_Inr [OF ev] ad st show ?thesis by simp
qed

text \<open>
  Claim C6. The configuration object declares exactly three story globs in \<open>stories\<close>,
  and its \<open>addons\<close> field lists exactly five addons, those of the fixed names
  onboarding, links, essentials, chromatic and interactions in this order, each entry
  being \<open>getAbsolutePath\<close> of the package name; every evaluation in the same Node
  installation gives the same two lists.
\<close>

theorem config_stories_and_addons:
  "config node = Inr c \<Longrightarrow>
     stories c =
       [''../stories/**/*.mdx'',
        ''../stories/**/*.stories.@(js|jsx|mjs|ts|tsx)'',
        ''../../packages/ui/src/components/**/*.stories.@(js|jsx|mjs|ts|tsx)'']
     \<and> length (stories c) = 3
     \<and> map Inr (addons c) = map (getAbsolutePath node) addon_names
     \<and> length (addons c) = 5
     \<and> (\<forall>c'. config node = Inr c' \<longrightarrow> stories c' = stories c \<and> addons c' = addons c)"
proof -
  assume c: "config node = Inr c"
  note st = config_Inr [OF c, THEN conjunct1] and m = config_Inr [OF c, THEN conjunct2]
  from m have "length (map Inr (addons c) :: (error + string) list) = length addon_names"
    by simp
  then have len: "length (addons c) = 5" by (simp add: addon_names_def)
  from c st m len show ?thesis by simp
qed

text \<open>
  In the example installation every package resolves, and the configuration is built.
\<close>

theorem config_stories_and_addons_witness:
  "\<exists>c. config example_node = Inr c
       \<and> length (stories c) = 3
       \<and> addons c =
           [''/repo/node_modules/@storybook/addon-onboarding'',
            ''/repo/node_modules/@storybook/addon-links'',
            ''/repo/node_modules/@storybook/addon-essentials'',
            ''/repo/node_modules/@chromatic-com/storybook'',
            ''/repo/node_modules/@storybook/addon-interactions'']"
proof -
  obtain c where c: "config example_node = Inr c"
    by (simp add: config_def getAbsolutePath_def example_node_def)
  from config_stories_and_addons [OF c]
  have "length (stories c) = 3"
    and "map Inr (addons c) = map (getAbsolutePath example_node) addon_names"
    by simp_all
  then have "length (stories c) = 3"
    and "addons c =
           [''/repo/node_modules/@storybook/addon-onboarding'',
            ''/repo/node_modules/@storybook/addon-links'',
            ''/repo/node_modules/@storybook/addon-essentials'',
            ''/repo/node_modules/@chromatic-com/storybook'',
            ''/repo/node_modules/@storybook/addon-interactions'']"
    by (simp_all add: addon_names_def getAbsolutePath_def example_node_def map_eq_Cons_conv)
  with c show ?thesis by blast
qed

text \<open>
  When one of the five packages does not resolve, \<open>require.resolve\<close> throws and no
  configuration object is built.
\<close>

lemma config_throws_when_unresolved:
  assumes "n \<in> set addon_names" and "getAbsolutePath node n = Inl err"
  shows "\<exists>err'. config node = Inl err'"
proof (cases "config node")
  case (Inl err')
  then show ?thesis by blast
next
  case (Inr c)
  from config_Inr [OF Inr]
  have "map (getAbsolutePath node) addon_names = map Inr (addons c)" by simp
  then have "getAbsolutePath node n \<in> Inr ` set (addons c)"
    using assms(1) by (metis image_eqI list.set_map)
  with assms(2) show ?thesis by auto
qed


section \<open>Properties of the page components\<close>

text \<open>
  Every component the two pages name is bound by an import of its module, so the
  JSX of each page evaluates to its element.
\<close>

lemma Page_element: "Page props = Inr page_element"
  by (simp add: Page_def jsx_def page_imports_def page_element_def)

lemma Page_charts_element: "Page_charts props = Inr charts_page_element"
  by (simp add: Page_charts_def jsx_def charts_page_imports_def charts_page_element_def)

text \<open>
  Claim C7. The docs \<open>Page\<close> components have no branch and read no input: any two
  invocations of a page, whatever is passed to them, return the identical element
  tree.
\<close>

theorem Page_is_constant:
  "Page (p :: 'a) = Page (q :: 'b) \<and> Page_charts (p' :: 'c) = Page_charts (q' :: 'd)"
  by (simp add: Page_def Page_charts_def)

text \<open>
  Claim C8. Every invocation of a docs \<open>Page\<close> component returns normally: evaluating
  its JSX throws nothing, and the value returned is an element, the \<open>main\<close> element of
  the page.
\<close>

theorem Page_returns_element:
  "(\<exists>props children. Page p = Inr (Element (Intrinsic ''main'') props children))
   \<and> (\<exists>props children. Page_charts p' = Inr (Element (Intrinsic ''main'') props children))"
  by (simp add: Page_element Page_charts_element page_element_def charts_page_element_def)


section \<open>Properties of the content documents\<close>

text \<open>
  Claim C2, as stated, fails: not every content document begins with a front-matter
  block that holds the four fields.
\<close>

theorem incomplete_front_matter_counterexample:
  "\<not> list_all complete_front_matter content_documents"
  by code_simp

text \<open>
  Claim C2, amended. Of the ten content documents, four begin with a front-matter
  block that holds \<open>title\<close>, \<open>publishedAt\<close>, \<open>summary\<close> and a boolean \<open>published\<close>; the
  document of src/unnamed/part_004 begins with a block that holds \<open>title\<close>,
  \<open>publishedAt\<close> and \<open>summary\<close> and no \<open>published\<close>; the other five do not begin with a
  front-matter block.
\<close>

theorem front_matter_of_the_documents:
  "list_all complete_front_matter [doc_design_systems, doc_part_000, doc_part_000_3, doc_part_003]
   \<and> front_matter doc_part_004 \<noteq> None
   \<and> fields_present doc_part_004 = [''title'', ''publishedAt'', ''summary'']
   \<and> list_all (\<lambda>d. front_matter d = None)
        [doc_button_article, doc_final, doc_unlocking, doc_unlocking_2, doc_part_002]
   \<and> content_documents =
        [doc_button_article, doc_design_systems, doc_final, doc_unlocking, doc_unlocking_2,
         doc_part_000, doc_part_000_3, doc_part_002, doc_part_003, doc_part_004]"
proof -
  have a: "list_all complete_front_matter [doc_design_systems, doc_part_000, doc_part_000_3, doc_part_003]"
    by code_simp
  have b: "front_matter doc_part_004 \<noteq> None"
    by code_simp
  have c: "fields_present doc_part_004 = [''title'', ''publishedAt'', ''summary'']"
    by code_simp
  have d: "list_all (\<lambda>d. front_matter d = None)
        [doc_button_article, doc_final, doc_unlocking, doc_unlocking_2, doc_part_002]"
    by code_simp
  from a b c d show ?thesis by (simp only: content_documents_def simp_thms)
qed

text \<open>
  Claim C5, as stated, fails: not every post has a title, even when a heading or a
  bold line that opens the document counts as one.
\<close>

theorem untitled_post_counterexample:
  "\<not> list_all (\<lambda>d. has_title d \<and> has_body d) content_documents"
  by code_simp

text \<open>
  Claim C5, amended. Every post has a body, text that follows its title or, without
  a title, opens the document. The five posts that begin with a front-matter block
  have a non-empty \<open>title\<close> there; three more have no front matter and open with a
  heading or a bold line; the remaining two open with a paragraph and have no title.
\<close>

theorem titles_and_bodies_of_the_posts:
  "list_all (\<lambda>d. titled_by_front_matter d \<and> has_body d)
     [doc_design_systems, doc_part_000, doc_part_000_3, doc_part_003, doc_part_004]
   \<and> list_all (\<lambda>d. titled_by_heading d \<and> has_body d)
        [doc_button_article, doc_final, doc_unlocking]
   \<and> list_all (\<lambda>d. \<not> has_title d \<and> has_body d) [doc_unlocking_2, doc_part_002]"
proof -
  have a: "list_all (\<lambda>d. titled_by_front_matter d \<and> has_body d)
     [doc_design_systems, doc_part_000, doc_part_000_3, doc_part_003, doc_part_004]"
    by code_simp
  have b: "list_all (\<lambda>d. titled_by_heading d \<and> has_body d)
        [doc_button_article, doc_final, doc_unlocking]"
    by code_simp
  have c: "list_all (\<lambda>d. \<not> has_title d \<and> has_body d) [doc_unlocking_2, doc_part_002]"
    by code_simp
  from a b c show ?thesis by (simp only: simp_thms)
qed


section \<open>Properties of the autocomplete request handler\<close>

text \<open>
  A call that finds a truthy string under the query returns what \<open>JSON.parse\<close> makes
  of it and writes nothing.
\<close>

lemma kv_hit:
  "kv_get (KV_NAMESPACE e) q = Some (c # cs) \<Longrightarrow>
   handleAutocompleteRequest h q e = (JSON_parse h (c # cs), e)"
  by (simp add: handleAutocompleteRequest_def)

lemma served_from_kv_iff:
  "served_from_kv e q \<longleftrightarrow> (\<exists>c cs. kv_get (KV_NAMESPACE e) q = Some (c # cs))"
  by (auto simp: served_from_kv_def split: option.splits list.splits)

text \<open>
  A call that finds none and returns has written the text of its result under the
  query, to live 60 seconds.
\<close>

lemma kv_miss_returns:
  assumes miss: "\<not> served_from_kv e q"
    and ret: "handleAutocompleteRequest h q e = (Inr r, e')"
  shows "KV_NAMESPACE e' q
           = Some \<lparr>kv_text = kv_text_of (JSON_stringify h r), expirationTtl = Some 60\<rparr>"
proof -
  from miss have body:
    "handleAutocompleteRequest h q e =
       (case results_from_d2 h q e of
          (Inl err, e') \<Rightarrow> (Inl err, e')
        | (Inr results, e') \<Rightarrow>
            (Inr results,
             e'\<lparr>KV_NAMESPACE := kv_put (KV_NAMESPACE e') q (JSON_stringify h results) 60\<rparr>))"
    by (auto simp: served_from_kv_def handleAutocompleteRequest_def split: option.splits list.splits)
  obtain res e1 where d2: "results_from_d2 h q e = (res, e1)"
    by (cases "results_from_d2 h q e") auto
  from ret body d2 show ?thesis
    by (auto simp: kv_put_def split: sum.splits)
qed

text \<open>
  Claim C10, amended. When the first of two calls in succession with the same query
  returns a result, and, unless the first call itself was served from the key-value
  store, the text the store keeps for that result (its \<open>JSON.stringify\<close>, or
  \<open>undefined\<close> when that gives no string) is not empty and \<open>JSON.parse\<close> reads it back
  as the result, then the second call returns the equal result and changes nothing.
  It is served from the entry under the query, the one the first call found or the
  one it wrote with a time to live of 60 seconds: the entry parses to the result,
  and a call with this entry and this \<open>JSON.parse\<close> returns the result whatever the
  durable object, the SQL engine and the conversion service hold or answer.
\<close>

theorem second_call_served_from_kv:
  assumes first: "first_call h q e = (Inr r, e')"
    and round_trip:
      "served_from_kv e q
       \<or> (kv_text_of (JSON_stringify h r) \<noteq> []
          \<and> JSON_parse h (kv_text_of (JSON_stringify h r)) = Inr r)"
  shows "second_call h q e = (Inr r, e')
         \<and> (\<exists>c cs. kv_get (KV_NAMESPACE e') q = Some (c # cs) \<and> JSON_parse h (c # cs) = Inr r)
         \<and> (served_from_kv e q
            \<or> KV_NAMESPACE e' q
                = Some \<lparr>kv_text = kv_text_of (JSON_stringify h r), expirationTtl = Some 60\<rparr>)
         \<and> (\<forall>h2 e2. JSON_parse h2 = JSON_parse h \<and> KV_NAMESPACE e2 q = KV_NAMESPACE e' q
               \<longrightarrow> handleAutocompleteRequest h2 q e2 = (Inr r, e2))"
proof -
  from first have ret: "handleAutocompleteRequest h q e = (Inr r, e')"
    by (simp add: first_call_def)
  have entry: "\<exists>c cs. kv_get (KV_NAMESPACE e') q = Some (c # cs) \<and> JSON_parse h (c # cs) = Inr r"
  proof (cases "served_from_kv e q")
    case True
    then obtain c cs where get: "kv_get (KV_NAMESPACE e) q = Some (c # cs)"
      by (auto simp: served_from_kv_iff)
    from kv_hit [OF get, of h] ret have "e' = e" and "JSON_parse h (c # cs) = Inr r"
      by simp_all
    with get show ?thesis by blast
  next
    case False
    from kv_miss_returns [OF False ret]
    have stored: "kv_get (KV_NAMESPACE e') q = Some (kv_text_of (JSON_stringify h r))"
      by (simp add: kv_get_def)
    from round_trip False
    have ne: "kv_text_of (JSON_stringify h r) \<noteq> []"
      and parse: "JSON_parse h (kv_text_of (JSON_stringify h r)) = Inr r"
      by simp_all
    from ne obtain c cs where "kv_text_of (JSON_stringify h r) = c # cs"
      by (cases "kv_text_of (JSON_stringify h r)") auto
    with stored parse show ?thesis by auto
  qed
  then obtain c cs where get: "kv_get (KV_NAMESPACE e') q = Some (c # cs)"
    and parse: "JSON_parse h (c # cs) = Inr r"
    by blast
  have only_kv: "\<forall>h2 e2. JSON_parse h2 = JSON_parse h \<and> KV_NAMESPACE e2 q = KV_NAMESPACE e' q
               \<longrightarrow> handleAutocompleteRequest h2 q e2 = (Inr r, e2)"
  proof (intro allI impI)
    fix h2 :: host and e2 :: env
    assume same: "JSON_parse h2 = JSON_parse h \<and> KV_NAMESPACE e2 q = KV_NAMESPACE e' q"
    with get have "kv_get (KV_NAMESPACE e2) q = Some (c # cs)"
      by (simp add: kv_get_def)
    from kv_hit [OF this, of h2] same parse
    show "handleAutocompleteRequest h2 q e2 = (Inr r, e2)" by simp
  qed
  then have "handleAutocompleteRequest h q e' = (Inr r, e')" by blast
  with first have second: "second_call h q e = (Inr r, e')"
    by (simp add: second_call_def)
  have written: "served_from_kv e q
            \<or> KV_NAMESPACE e' q
                = Some \<lparr>kv_text = kv_text_of (JSON_stringify h r), expirationTtl = Some 60\<rparr>"
    using kv_miss_returns [OF _ ret] by blast
  from second entry written only_kv show ?thesis by blast
qed

text \<open>
  With nothing cached, the first call converts the query, runs the SQL, and caches
  the rows; the second call reads them from the key-value store.
\<close>

lemma tiny_first_call:
  "fst (first_call tiny_host ''ann'' empty_env) = Inr (JArr [JStr ''ann''])"
  by (simp add: Let_def first_call_def handleAutocompleteRequest_def results_from_d2_def
      performNLPToSQLConversion_def executeSQLQueryOnD2_def kv_get_def d2_get_def
      tiny_host_def empty_env_def)

theorem second_call_served_from_kv_witness:
  "fst (first_call tiny_host ''ann'' empty_env) = Inr (JArr [JStr ''ann''])
   \<and> \<not> served_from_kv empty_env ''ann''
   \<and> fst (second_call tiny_host ''ann'' empty_env) = Inr (JArr [JStr ''ann''])
   \<and> KV_NAMESPACE (snd (first_call tiny_host ''ann'' empty_env)) ''ann''
       = Some \<lparr>kv_text = ''[\"ann\"]'', expirationTtl = Some 60\<rparr>"
proof -
  let ?e' = "snd (first_call tiny_host ''ann'' empty_env)"
  have first: "first_call tiny_host ''ann'' empty_env = (Inr (JArr [JStr ''ann'']), ?e')"
    using tiny_first_call by (simp add: prod_eq_iff)
  have miss: "\<not> served_from_kv empty_env ''ann''"
    by (simp add: served_from_kv_def kv_get_def empty_env_def)
  have stored: "kv_text_of (JSON_stringify tiny_host (JArr [JStr ''ann''])) = ''[\"ann\"]''"
    by (simp add: kv_text_of_def tiny_host_def example_stringify_def)
  have rt: "served_from_kv empty_env ''ann''
       \<or> (kv_text_of (JSON_stringify tiny_host (JArr [JStr ''ann''])) \<noteq> []
          \<and> JSON_parse tiny_host (kv_text_of (JSON_stringify tiny_host (JArr [JStr ''ann''])))
              = Inr (JArr [JStr ''ann'']))"
    by (simp add: stored) (simp add: tiny_host_def example_parse_def)
  from second_call_served_from_kv [OF first rt] tiny_first_call miss stored
  show ?thesis by simp
qed

text \<open>
  Claim C10, as stated, fails. With nothing cached and a conversion service that
  answers 503, \<open>performNLPToSQLConversion\<close> throws, and so does the first call; it
  writes no entry, and the second call throws as well instead of being served from
  the key-value store.
\<close>

theorem failed_conversion_counterexample:
  "fst (first_call failing_host ''ann'' empty_env)
     = Inl (Error ''Failed to convert query: Service Unavailable'')
   \<and> fst (second_call failing_host ''ann'' empty_env)
     = Inl (Error ''Failed to convert query: Service Unavailable'')
   \<and> \<not> served_from_kv (snd (first_call failing_host ''ann'' empty_env)) ''ann''"
  by (simp add: Let_def second_call_def first_call_def handleAutocompleteRequest_def results_from_d2_def
      performNLPToSQLConversion_def served_from_kv_def kv_get_def d2_get_def
      failing_host_def empty_env_def)

text \<open>
  The condition on the result is needed. A result that JSON does not give back
  unchanged is returned as it is by the first call and as JSON reads it by the
  second; and when the result is \<open>undefined\<close>, the first call returns it and stores
  the text \<open>undefined\<close>, on which the \<open>JSON.parse\<close> of the second call throws.
\<close>

lemma second_call_differs_without_round_trip:
  "fst (first_call tiny_host ''ann'' stored_env) = Inr (JArr [JUndefined])
   \<and> fst (second_call tiny_host ''ann'' stored_env) = Inr (JArr [JNull])
   \<and> served_from_kv (snd (first_call tiny_host ''ann'' stored_env)) ''ann''"
  by (simp add: Let_def second_call_def first_call_def handleAutocompleteRequest_def results_from_d2_def
      served_from_kv_def kv_get_def kv_put_def kv_text_of_def d2_get_def tiny_host_def
      example_stringify_def example_parse_def stored_env_def)

lemma second_call_throws_on_undefined_result:
  "fst (first_call tiny_host ''ann'' undefined_env) = Inr JUndefined
   \<and> kv_get (KV_NAMESPACE (snd (first_call tiny_host ''ann'' undefined_env))) ''ann''
       = Some ''undefined''
   \<and> fst (second_call tiny_host ''ann'' undefined_env) = Inl (SyntaxError ''Unexpected token'')"
  by (simp add: Let_def second_call_def first_call_def handleAutocompleteRequest_def results_from_d2_def
      performNLPToSQLConversion_def executeSQLQueryOnD2_def
      kv_get_def kv_put_def kv_text_of_def d2_get_def tiny_host_def
      example_stringify_def example_parse_def undefined_env_def)

end
